theory Spec2Isabelle
  imports Main "HOL-Library.Sublist"
begin

section \<open>Values, exceptions and the outside world\<close>

text \<open>
  Python strings are modelled as HOL strings; a character stands for a code point below 256.
  A property value delivered by the CRM is a string or null (Python's \<open>None\<close>).
\<close>

datatype propval = Str string | Null

text \<open>
  A value decoded from a JSON body (\<open>response.json()\<close>). Non-integral numbers are left
  out: nothing in the program computes with numbers.
\<close>

datatype pyval =
    PNone
  | PBool bool
  | PInt int
  | PStr string
  | PList "pyval list"
  | PDict "(string \<times> pyval) list"

text \<open>
  The exceptions the program raises, catches or lets through. \<open>HTTPException\<close> carries
  \<open>status_code\<close> and \<open>detail\<close>; \<open>RequestException\<close> stands for
  \<open>requests.RequestException\<close> and its subclasses; \<open>ValidationError\<close> lists the
  fields a pydantic model rejected; \<open>OtherException\<close> is any other subclass of
  \<open>Exception\<close> raised by a library or by the operating system. Every constructor is a
  subclass of \<open>Exception\<close>, so \<open>except Exception\<close> catches each of them.
\<close>

datatype exn =
    HTTPException nat string
  | RequestException string
  | AttributeError string
  | ValidationError "string list"
  | ValueError string
  | KeyError string
  | OtherException string

record datetime =
  year :: nat
  month :: nat
  day :: nat
  hour :: nat
  minute :: nat
  second :: nat
  microsecond :: nat

definition digit_char :: "nat \<Rightarrow> char" where
  "digit_char d = char_of (48 + d)"

definition pad2 :: "nat \<Rightarrow> string" where
  "pad2 n = [digit_char ((n div 10) mod 10), digit_char (n mod 10)]"

definition pad4 :: "nat \<Rightarrow> string" where
  "pad4 n = pad2 ((n div 100) mod 100) @ pad2 (n mod 100)"

text \<open>\<open>strftime("%Y-%m-%d")\<close> and \<open>strftime("%Y%m%d_%H%M%S")\<close>, for the four-digit
  years that \<open>datetime.now()\<close> returns.\<close>

definition strftime_date :: "datetime \<Rightarrow> string" where
  "strftime_date t = pad4 (year t) @ ''-'' @ pad2 (month t) @ ''-'' @ pad2 (day t)"

definition strftime_stamp :: "datetime \<Rightarrow> string" where
  "strftime_stamp t =
     pad4 (year t) @ pad2 (month t) @ pad2 (day t) @ ''_'' @
     pad2 (hour t) @ pad2 (minute t) @ pad2 (second t)"

text \<open>
  Everything the program receives from outside: configuration, the clock, the three
  providers and the file system. Each provider call is a function from the request to the
  outcome, an exception or a value.
  \<^item> \<open>do_search name\<close>: the property mappings of \<open>api_response.results\<close>, in order;
  \<^item> \<open>voice_post prompt\<close>: \<open>requests.post\<close>, \<open>raise_for_status\<close> and \<open>json()\<close>;
  \<^item> \<open>voice_get url\<close>: \<open>requests.get\<close>, \<open>raise_for_status\<close> and \<open>json()\<close>;
  \<^item> \<open>makedirs path\<close>: \<open>os.makedirs(path, exist_ok=True)\<close>, the exception if it fails;
  \<^item> \<open>file_write path value\<close>: \<open>open(path, 'w')\<close> and \<open>json.dump\<close>, the exception
    if either fails;
  \<^item> \<open>str_exn e\<close>: \<open>str(e)\<close>; \<open>repr_val v\<close>: \<open>str(v)\<close> of a list or dict;
  \<^item> \<open>coerce_numbers\<close>: whether the installed pydantic turns a number given for a
    \<open>str\<close> field into a string (version 1) or rejects it (version 2).
\<close>

record env =
  DESTINATION_PHONE_NUMBER :: string
  now :: datetime
  do_search :: "string \<Rightarrow> exn + (string \<rightharpoonup> propval) list"
  voice_post :: "string \<Rightarrow> exn + pyval"
  voice_get :: "string \<Rightarrow> exn + pyval"
  makedirs :: "string \<Rightarrow> exn option"
  file_write :: "string \<Rightarrow> pyval \<Rightarrow> exn option"
  str_exn :: "exn \<Rightarrow> string"
  repr_val :: "pyval \<Rightarrow> string"
  coerce_numbers :: bool

section \<open>Customer Record Normalizer (class CustomerData)\<close>

record 'v ContactFields =
  bank_name :: 'v
  customer_name :: 'v
  loan_type :: 'v
  outstanding_amount :: 'v
  missed_emi_count :: 'v
  emi_amount :: 'v
  due_date :: 'v
  proposed_months :: 'v
  amount :: 'v
  months :: 'v
  phone_number :: 'v
  call_status :: 'v
  number_of_call_attempts :: 'v
  call_lifted_time :: 'v
  secure_payment_link :: 'v
  preferred_callback_time :: 'v
  main_message :: 'v
  dpd_days :: 'v
  date :: 'v
  agent_name :: 'v

type_synonym ContactResponse = "string ContactFields"

text \<open>\<open>d.get(k, default)\<close>: the default is used only when the key is absent.\<close>

definition dict_get :: "(string \<rightharpoonup> propval) \<Rightarrow> string \<Rightarrow> string \<Rightarrow> propval" where
  "dict_get d k dflt = (case d k of None \<Rightarrow> Str dflt | Some v \<Rightarrow> v)"

text \<open>What an f-string writes for a value: the string itself, \<open>None\<close> for null.\<close>

fun fmt :: "propval \<Rightarrow> string" where
  "fmt (Str s) = s"
| "fmt Null = ''None''"

definition build_main_message :: "(string \<rightharpoonup> propval) \<Rightarrow> string" where
  "build_main_message contact_data =
    (let customer_name = dict_get contact_data ''customer_name'' '''';
         bank_name = dict_get contact_data ''bank_name'' ''Example Bank'';
         loan_type = dict_get contact_data ''loan_type'' '''';
         outstanding_amount = dict_get contact_data ''outstanding_amount'' '''';
         missed_emi_count = dict_get contact_data ''missed_emi_count'' '''';
         emi_amount = dict_get contact_data ''emi_amount'' '''';
         dpd_days = dict_get contact_data ''dpd_days'' '''';
         due_date = dict_get contact_data ''due_date'' '''';
         secure_payment_link =
           dict_get contact_data ''secure_payment_link'' ''https://example.com/payment''
     in ''Hello '' @ fmt customer_name @ '', this is '' @ fmt bank_name @
        '' regarding your '' @ fmt loan_type @ ''. '' @
        ''Your outstanding balance is '' @ fmt outstanding_amount @
        '' rupees. You have missed '' @ fmt missed_emi_count @ '' '' @
        ''EMI payments of '' @ fmt emi_amount @
        '' rupees each. Your account is '' @ fmt dpd_days @ '' days past due as of '' @
        fmt due_date @ ''. Please make a payment today via our mobile app at '' @
        fmt secure_payment_link @ ''.'')"

text \<open>\<open>str.strip()\<close>: the white space of Python among the code points below 256.\<close>

definition py_isspace :: "char \<Rightarrow> bool" where
  "py_isspace c = (of_char c \<in> {9, 10, 11, 12, 13, 28, 29, 30, 31, 32, 133, 160 :: nat})"

definition strip :: "string \<Rightarrow> string" where
  "strip s = rev (dropWhile py_isspace (rev (dropWhile py_isspace s)))"

text \<open>
  The constructor of the pydantic model: every field is declared \<open>str\<close>, so a null is
  rejected, and the error names the rejected fields in the order of their declaration.
\<close>

definition field_values :: "'v ContactFields \<Rightarrow> (string \<times> 'v) list" where
  "field_values r =
    [(''bank_name'', bank_name r), (''customer_name'', customer_name r),
     (''loan_type'', loan_type r), (''outstanding_amount'', outstanding_amount r),
     (''missed_emi_count'', missed_emi_count r), (''emi_amount'', emi_amount r),
     (''due_date'', due_date r), (''proposed_months'', proposed_months r),
     (''amount'', amount r), (''months'', months r), (''phone_number'', phone_number r),
     (''call_status'', call_status r),
     (''number_of_call_attempts'', number_of_call_attempts r),
     (''call_lifted_time'', call_lifted_time r),
     (''secure_payment_link'', secure_payment_link r),
     (''preferred_callback_time'', preferred_callback_time r),
     (''main_message'', main_message r), (''dpd_days'', dpd_days r), (''date'', date r),
     (''agent_name'', agent_name r)]"

definition ContactResponse_init :: "propval ContactFields \<Rightarrow> exn + ContactResponse" where
  "ContactResponse_init r =
    (let rejected = map fst (filter (\<lambda>(k, v). v = Null) (field_values r))
     in if rejected \<noteq> [] then Inl (ValidationError rejected)
        else Inr \<lparr>bank_name = fmt (bank_name r), customer_name = fmt (customer_name r),
          loan_type = fmt (loan_type r), outstanding_amount = fmt (outstanding_amount r),
          missed_emi_count = fmt (missed_emi_count r), emi_amount = fmt (emi_amount r),
          due_date = fmt (due_date r), proposed_months = fmt (proposed_months r),
          amount = fmt (amount r), months = fmt (months r),
          phone_number = fmt (phone_number r), call_status = fmt (call_status r),
          number_of_call_attempts = fmt (number_of_call_attempts r),
          call_lifted_time = fmt (call_lifted_time r),
          secure_payment_link = fmt (secure_payment_link r),
          preferred_callback_time = fmt (preferred_callback_time r),
          main_message = fmt (main_message r), dpd_days = fmt (dpd_days r),
          date = fmt (date r), agent_name = fmt (agent_name r)\<rparr>)"

text \<open>
  \<open>create_response_object\<close>. The keyword arguments are evaluated before the model is
  built, so \<open>.strip()\<close> on a null customer name raises first.
\<close>

definition create_response_object ::
  "env \<Rightarrow> (string \<rightharpoonup> propval) \<Rightarrow> exn + ContactResponse" where
  "create_response_object e contact_data =
    (let message = build_main_message contact_data
     in case dict_get contact_data ''customer_name'' '''' of
          Null \<Rightarrow> Inl (AttributeError ''strip'')
        | Str name \<Rightarrow>
            ContactResponse_init
              \<lparr>bank_name = dict_get contact_data ''bank_name'' ''Example Bank'',
               customer_name = Str (strip name),
               loan_type = dict_get contact_data ''loan_type'' '''',
               outstanding_amount = dict_get contact_data ''outstanding_amount'' '''',
               missed_emi_count = dict_get contact_data ''missed_emi_count'' '''',
               emi_amount = dict_get contact_data ''emi_amount'' '''',
               due_date = dict_get contact_data ''due_date'' '''',
               proposed_months = dict_get contact_data ''proposed_months'' '''',
               amount = dict_get contact_data ''amount'' '''',
               months = dict_get contact_data ''months'' '''',
               phone_number =
                 dict_get contact_data ''phone_number'' (DESTINATION_PHONE_NUMBER e),
               call_status = dict_get contact_data ''call_status'' '''',
               number_of_call_attempts =
                 dict_get contact_data ''number_of_call_attempts'' '''',
               call_lifted_time = dict_get contact_data ''call_lifted_time'' '''',
               secure_payment_link =
                 dict_get contact_data ''secure_payment_link'' ''https://example.com/payment'',
               preferred_callback_time =
                 dict_get contact_data ''preferred_callback_time'' '''',
               main_message = Str message,
               dpd_days = dict_get contact_data ''dpd_days'' '''',
               date = Str (strftime_date (now e)),
               agent_name = Str ''Yaswanth''\<rparr>)"

section \<open>Call Script Builder (SYSTEM_PROMPT and str.format)\<close>

text \<open>The template, line by line as in the source; it starts with a line break.\<close>

definition SYSTEM_PROMPT :: string where
  \<open>SYSTEM_PROMPT = concat
    [
     ''\<newline>'',
     ''# Instructions for Voice Agent\<newline>'',
     ''- You are {agent_name}, a professional recovery agent for {bank_name}.\<newline>'',
     ''- Use a professional, polite tone (e.g., 'Yaswanth' voice, en-IN).\<newline>'',
     ''- Replace placeholders with provided customer data.\<newline>'',
     ''- Deliver the message clearly, pausing briefly (1-2 seconds) between sentences.\<newline>'',
     ''- Detect reluctance indicators (e.g., "not now," "busy," "later," "can't talk") in customer responses.\<newline>'',
     ''- Keep the total message under 30 seconds unless the customer engages further.\<newline>'',
     ''- Log responses for feedback analysis (e.g., customer sentiment, preferred call time).\<newline>'',
     ''- When you say "Thank you for your time, {customer_name}. We'll follow up later. Goodbye." and the user responds with "bye" or "goodbye" (case-insensitive), pause for 2 seconds and then end the call.\<newline>'',
     ''\<newline>'',
     ''# Prompt Flow\<newline>'',
     ''1. **Greeting**:\<newline>'',
     ''   "Hello, this is {bank_name} calling from the recovery department. May I speak with {customer_name}, please?"\<newline>'',
     ''\<newline>'',
     ''2. **Confirm Identity**:\<newline>'',
     ''   - If the customer confirms their identity (e.g., "yes," "speaking," or their name), proceed to Main Message.\<newline>'',
     ''   - If no response or unclear response after 5 seconds, repeat the greeting once, then end with: "We'll try reaching you again later. Thank you."\<newline>'',
     ''\<newline>'',
     ''3. **Main Message**:\<newline>'',
     ''   - In the message if there is any date or money, you should tell the date (e.g.,Twenty Second June of Two Thousand Twenty Five) or money (e.g., Fourty Hundred Rupees) like a human. \<newline>'',
     ''   "{main_message}"\<newline>'',
     ''\<newline>'',
     ''4. **Handle Customer Response**:\<newline>'',
     ''   - If the customer responds positively (e.g., "okay," "sure," "tell me more") or asks about payment:\<newline>'',
     ''     - Respond: "Thank you, {customer_name}. Would you like assistance with the next steps now?"\<newline>'',
     ''     - Wait for response (up to 3 seconds).\<newline>'',
     ''     - If no further engagement, end with: "Thank you for your time. Please act on this soon to avoid further action. Goodbye."\<newline>'',
     ''   - If the customer indicates reluctance (e.g., "not now," "busy," "call later"):\<newline>'',
     ''     - Respond: "I understand, {customer_name}. Could you please share a preferred time for us to call you back?"\<newline>'',
     ''     - Collect response (e.g., "tomorrow morning," "evening") and confirm: "Thank you, we'll call you back at {preferred_callback_time}. Have a good day."\<newline>'',
     ''     - Log the preferred time for feedback analysis.\<newline>'',
     ''   - If no response or negative response (e.g., "don't call," "not interested") after 2 seconds:\<newline>'',
     ''     - Respond: "Thank you for your time, {customer_name}. We'll follow up later. Goodbye."\<newline>'',
     ''\<newline>'',
     ''5. **End Call**:\<newline>'',
     ''   - Log the interaction with customer_id, response, and any preferred call time for feedback analysis.\<newline>'']\<close>

text \<open>
  \<open>str.format\<close> with keyword arguments, read from left to right: literal text is copied,
  \<open>{{\<close> and \<open>}}\<close> stand for one brace, \<open>{name}\<close> is replaced by the argument of
  that name (\<open>KeyError\<close> when there is none) and the inserted text is not read again. A
  brace without its partner is a \<open>ValueError\<close>. Replacement fields are plain keyword
  names, as every field of \<open>SYSTEM_PROMPT\<close> is; a field with a conversion, a format
  specification, an attribute, an index or a position is outside this model and is
  reported as a \<open>ValueError\<close> too.
\<close>

definition is_digit :: "char \<Rightarrow> bool" where
  "is_digit c = (48 \<le> (of_char c :: nat) \<and> (of_char c :: nat) \<le> 57)"

definition simple_name :: "string \<Rightarrow> bool" where
  "simple_name n =
     (n \<noteq> [] \<and> list_all (\<lambda>c. c \<notin> set ''{}!:.[]'') n \<and> \<not> list_all is_digit n)"

fun format_scan ::
  "(string \<rightharpoonup> string) \<Rightarrow> string \<Rightarrow> string option \<Rightarrow> string \<Rightarrow> exn + string" where
  "format_scan kw out None [] = Inr out"
| "format_scan kw out (Some f) [] = Inl (ValueError ''expected } before end of string'')"
| "format_scan kw out None (c # cs) =
     (if c = CHR ''{'' then
        (case cs of
           [] \<Rightarrow> Inl (ValueError ''Single { encountered in format string'')
         | d # ds \<Rightarrow>
             if d = CHR ''{'' then format_scan kw (out @ [c]) None ds
             else format_scan kw out (Some []) cs)
      else if c = CHR ''}'' then
        (case cs of
           [] \<Rightarrow> Inl (ValueError ''Single } encountered in format string'')
         | d # ds \<Rightarrow>
             if d = CHR ''}'' then format_scan kw (out @ [c]) None ds
             else Inl (ValueError ''Single } encountered in format string''))
      else format_scan kw (out @ [c]) None cs)"
| "format_scan kw out (Some f) (c # cs) =
     (if c = CHR ''}'' then
        (if simple_name f then
           (case kw f of
              None \<Rightarrow> Inl (KeyError f)
            | Some v \<Rightarrow> format_scan kw (out @ v) None cs)
         else Inl (ValueError ''replacement field outside the model''))
      else format_scan kw out (Some (f @ [c])) cs)"

definition py_format :: "string \<Rightarrow> (string \<rightharpoonup> string) \<Rightarrow> exn + string" where
  "py_format template kw = format_scan kw [] None template"

text \<open>The keyword arguments \<open>create_call\<close> passes to \<open>SYSTEM_PROMPT.format\<close>.\<close>

definition prompt_kwargs :: "ContactResponse \<Rightarrow> (string \<rightharpoonup> string)" where
  "prompt_kwargs customer_data =
     [''agent_name'' \<mapsto> agent_name customer_data,
      ''bank_name'' \<mapsto> bank_name customer_data,
      ''customer_name'' \<mapsto> customer_name customer_data,
      ''main_message'' \<mapsto> main_message customer_data,
      ''preferred_callback_time'' \<mapsto> preferred_callback_time customer_data]"

definition formatted_prompt :: "ContactResponse \<Rightarrow> exn + string" where
  "formatted_prompt customer_data = py_format SYSTEM_PROMPT (prompt_kwargs customer_data)"

text \<open>
  The same template cut at its replacement fields, for reasoning: \<open>template_of\<close> writes a
  list of pieces back as format text, and \<open>render\<close> is what substitution makes of it.
\<close>

datatype piece = Lit string | Field string

fun piece_text :: "piece \<Rightarrow> string" where
  "piece_text (Lit s) = s"
| "piece_text (Field n) = ''{'' @ n @ ''}''"

definition template_of :: "piece list \<Rightarrow> string" where
  "template_of ps = concat (map piece_text ps)"

fun render :: "(string \<rightharpoonup> string) \<Rightarrow> string \<Rightarrow> piece list \<Rightarrow> exn + string" where
  "render kw out [] = Inr out"
| "render kw out (Lit s # ps) = render kw (out @ s) ps"
| "render kw out (Field n # ps) =
     (case kw n of None \<Rightarrow> Inl (KeyError n) | Some v \<Rightarrow> render kw (out @ v) ps)"

definition plain :: "string \<Rightarrow> bool" where
  "plain s = (CHR ''{'' \<notin> set s \<and> CHR ''}'' \<notin> set s)"

fun wf_piece :: "piece \<Rightarrow> bool" where
  "wf_piece (Lit s) = plain s"
| "wf_piece (Field n) = simple_name n"

definition prompt_pieces :: "piece list" where
  \<open>prompt_pieces =
    [
     Lit (concat
       [''\<newline>'',
        ''# Instructions for Voice Agent\<newline>'',
        ''- You are '']),
     Field ''agent_name'',
     Lit '', a professional recovery agent for '',
     Field ''bank_name'',
     Lit (concat
       [''.\<newline>'',
        ''- Use a professional, polite tone (e.g., 'Yaswanth' voice, en-IN).\<newline>'',
        ''- Replace placeholders with provided customer data.\<newline>'',
        ''- Deliver the message clearly, pausing briefly (1-2 seconds) between sentences.\<newline>'',
        ''- Detect reluctance indicators (e.g., "not now," "busy," "later," "can't talk") in customer responses.\<newline>'',
        ''- Keep the total message under 30 seconds unless the customer engages further.\<newline>'',
        ''- Log responses for feedback analysis (e.g., customer sentiment, preferred call time).\<newline>'',
        ''- When you say "Thank you for your time, '']),
     Field ''customer_name'',
     Lit (concat
       [''. We'll follow up later. Goodbye." and the user responds with "bye" or "goodbye" (case-insensitive), pause for 2 seconds and then end the call.\<newline>'',
        ''\<newline>'',
        ''# Prompt Flow\<newline>'',
        ''1. **Greeting**:\<newline>'',
        ''   "Hello, this is '']),
     Field ''bank_name'',
     Lit '' calling from the recovery department. May I speak with '',
     Field ''customer_name'',
     Lit (concat
       ['', please?"\<newline>'',
        ''\<newline>'',
        ''2. **Confirm Identity**:\<newline>'',
        ''   - If the customer confirms their identity (e.g., "yes," "speaking," or their name), proceed to Main Message.\<newline>'',
        ''   - If no response or unclear response after 5 seconds, repeat the greeting once, then end with: "We'll try reaching you again later. Thank you."\<newline>'',
        ''\<newline>'',
        ''3. **Main Message**:\<newline>'',
        ''   - In the message if there is any date or money, you should tell the date (e.g.,Twenty Second June of Two Thousand Twenty Five) or money (e.g., Fourty Hundred Rupees) like a human. \<newline>'',
        ''   "'']),
     Field ''main_message'',
     Lit (concat
       [''"\<newline>'',
        ''\<newline>'',
        ''4. **Handle Customer Response**:\<newline>'',
        ''   - If the customer responds positively (e.g., "okay," "sure," "tell me more") or asks about payment:\<newline>'',
        ''     - Respond: "Thank you, '']),
     Field ''customer_name'',
     Lit (concat
       [''. Would you like assistance with the next steps now?"\<newline>'',
        ''     - Wait for response (up to 3 seconds).\<newline>'',
        ''     - If no further engagement, end with: "Thank you for your time. Please act on this soon to avoid further action. Goodbye."\<newline>'',
        ''   - If the customer indicates reluctance (e.g., "not now," "busy," "call later"):\<newline>'',
        ''     - Respond: "I understand, '']),
     Field ''customer_name'',
     Lit (concat
       [''. Could you please share a preferred time for us to call you back?"\<newline>'',
        ''     - Collect response (e.g., "tomorrow morning," "evening") and confirm: "Thank you, we'll call you back at '']),
     Field ''preferred_callback_time'',
     Lit (concat
       [''. Have a good day."\<newline>'',
        ''     - Log the preferred time for feedback analysis.\<newline>'',
        ''   - If no response or negative response (e.g., "don't call," "not interested") after 2 seconds:\<newline>'',
        ''     - Respond: "Thank you for your time, '']),
     Field ''customer_name'',
     Lit (concat
       [''. We'll follow up later. Goodbye."\<newline>'',
        ''\<newline>'',
        ''5. **End Call**:\<newline>'',
        ''   - Log the interaction with customer_id, response, and any preferred call time for feedback analysis.\<newline>''])]\<close>

text \<open>The placeholders of the template, as they are written in it.\<close>

definition placeholders :: "string list" where
  "placeholders =
     [''{agent_name}'', ''{bank_name}'', ''{customer_name}'', ''{main_message}'',
      ''{preferred_callback_time}'']"

definition has_placeholder :: "string \<Rightarrow> bool" where
  "has_placeholder text = list_ex (\<lambda>p. sublist p text) placeholders"

section \<open>Process state and effects\<close>

text \<open>
  The module's globals \<open>voice_call_id\<close> and \<open>transcription_customer_name\<close> (both
  start as the empty string), and what the program does to the world: the transcript
  files it has written, by path, the directories it has made, the URLs it has requested
  from the voice provider with \<open>GET\<close>, oldest first, and the lines it has printed or
  logged. The coroutines of the program never suspend (their network calls block), so a
  handler runs from start to end without another one in between.
\<close>

record state =
  voice_call_id :: pyval
  transcription_customer_name :: string
  files :: "string \<rightharpoonup> pyval"
  directories :: "string set"
  requested :: "string list"
  printed :: "string list"

definition initial_state :: state where
  "initial_state =
     \<lparr>voice_call_id = PStr [], transcription_customer_name = [], files = Map.empty,
      directories = {}, requested = [], printed = []\<rparr>"

definition print :: "string \<Rightarrow> state \<Rightarrow> state" where
  "print line s = s\<lparr>printed := printed s @ [line]\<rparr>"

definition logger_error :: "string \<Rightarrow> state \<Rightarrow> state" where
  "logger_error line s = s\<lparr>printed := printed s @ [''ERROR:'' @ line]\<rparr>"

function dec :: "nat \<Rightarrow> string" where
  "dec n = (if n < 10 then [digit_char n] else dec (n div 10) @ [digit_char (n mod 10)])"
  by pat_completeness auto
termination
  by (relation "measure id") auto

text \<open>\<open>str(v)\<close> of a decoded value, as \<open>print\<close> and f-strings use it.\<close>

definition py_str :: "env \<Rightarrow> pyval \<Rightarrow> string" where
  "py_str e v =
     (case v of
        PNone \<Rightarrow> ''None''
      | PBool b \<Rightarrow> (if b then ''True'' else ''False'')
      | PInt i \<Rightarrow> (if i < 0 then ''-'' @ dec (nat (- i)) else dec (nat i))
      | PStr s \<Rightarrow> s
      | _ \<Rightarrow> repr_val e v)"

text \<open>\<open>v.get(k)\<close>: only a dict has the method; a missing key gives \<open>None\<close>.\<close>

definition py_get :: "pyval \<Rightarrow> string \<Rightarrow> exn + pyval" where
  "py_get v k =
     (case v of
        PDict kvs \<Rightarrow> Inr (case map_of kvs k of None \<Rightarrow> PNone | Some x \<Rightarrow> x)
      | _ \<Rightarrow> Inl (AttributeError ''get''))"

text \<open>The truth value of a decoded value in an \<open>if\<close>.\<close>

definition truthy :: "pyval \<Rightarrow> bool" where
  "truthy v =
     (case v of
        PNone \<Rightarrow> False
      | PBool b \<Rightarrow> b
      | PInt i \<Rightarrow> i \<noteq> 0
      | PStr s \<Rightarrow> s \<noteq> []
      | PList xs \<Rightarrow> xs \<noteq> []
      | PDict kvs \<Rightarrow> kvs \<noteq> [])"

definition is_RequestException :: "exn \<Rightarrow> bool" where
  "is_RequestException x = (case x of RequestException _ \<Rightarrow> True | _ \<Rightarrow> False)"

definition is_HTTPException :: "exn \<Rightarrow> bool" where
  "is_HTTPException x = (case x of HTTPException _ _ \<Rightarrow> True | _ \<Rightarrow> False)"

section \<open>CRM Lookup Client (HubSpotService.fetch_contact)\<close>

text \<open>
  The body of the \<open>try\<close> block first, then the \<open>except Exception\<close> clause around it:
  the clause receives every exception of the body, the \<open>HTTPException\<close> with status 404
  that the body raises itself included.
\<close>

definition fetch_contact_body ::
  "env \<Rightarrow> string \<Rightarrow> state \<Rightarrow> (exn + (string \<rightharpoonup> propval)) \<times> state" where
  "fetch_contact_body e name s =
     (case do_search e name of
        Inl x \<Rightarrow> (Inl x, s)
      | Inr results \<Rightarrow>
          (let s1 = print ''HubSpot API response received'' s
           in case results of
                [] \<Rightarrow> (Inl (HTTPException 404 (''No contact found for name: '' @ name)), s1)
              | first # _ \<Rightarrow> (Inr first, s1)))"

definition fetch_contact ::
  "env \<Rightarrow> string \<Rightarrow> state \<Rightarrow> (exn + (string \<rightharpoonup> propval)) \<times> state" where
  "fetch_contact e name s =
     (let s0 = print (''Searching HubSpot for customer_name: '' @ name) s
      in case fetch_contact_body e name s0 of
           (Inr properties, s1) \<Rightarrow> (Inr properties, s1)
         | (Inl x, s1) \<Rightarrow>
             (Inl (HTTPException 500 (''Failed to fetch HubSpot data: '' @ str_exn e x)),
              logger_error (''HubSpot Error: '' @ str_exn e x) s1))"

section \<open>Voice Session Manager (class VoiceService)\<close>

definition VOICE_API_URL :: string where
  "VOICE_API_URL = ''https://api.ultravox.ai/api/calls''"

text \<open>
  \<open>create_call\<close>. The prompt is formatted before the \<open>try\<close> block. Inside it, only a
  \<open>RequestException\<close> is turned into a 500; the two globals are written after the
  response has been decoded and \<open>callId\<close> read from it.
\<close>

definition create_call ::
  "env \<Rightarrow> ContactResponse \<Rightarrow> state \<Rightarrow> (exn + pyval) \<times> state" where
  "create_call e customer_data s =
     (let s0 = print ''Creating Voice call...'' s
      in case formatted_prompt customer_data of
           Inl x \<Rightarrow> (Inl x, s0)
         | Inr prompt \<Rightarrow>
             (case voice_post e prompt of
                Inl x \<Rightarrow>
                  (if is_RequestException x then
                     (Inl (HTTPException 500
                             (''Failed to create voice call: '' @ str_exn e x)),
                      logger_error (''Voice call Error: '' @ str_exn e x) s0)
                   else (Inl x, s0))
              | Inr voice_response \<Rightarrow>
                  (case py_get voice_response ''callId'' of
                     Inl x \<Rightarrow> (Inl x, s0)
                   | Inr call_id \<Rightarrow>
                       (let s1 = print (''voice call id... '' @ py_str e call_id) s0;
                            s2 = s1\<lparr>voice_call_id := call_id\<rparr>;
                            s3 = s2\<lparr>transcription_customer_name :=
                                       customer_name customer_data\<rparr>;
                            s4 = print ''Voice call created successfully'' s3
                        in (Inr voice_response, s4)))))"

definition transcript_url :: "env \<Rightarrow> pyval \<Rightarrow> string" where
  "transcript_url e call_id = VOICE_API_URL @ ''/'' @ py_str e call_id @ ''/messages''"

definition fetch_transcript :: "env \<Rightarrow> pyval \<Rightarrow> state \<Rightarrow> (exn + pyval) \<times> state" where
  "fetch_transcript e call_id s =
     (let url = transcript_url e call_id;
          s0 = print (''transcript_url '' @ url) s;
          s1 = s0\<lparr>requested := requested s0 @ [url]\<rparr>
      in case voice_get e url of
           Inl x \<Rightarrow>
             (if is_RequestException x then
                (Inl (HTTPException 500 (''Failed to fetch transcript: '' @ str_exn e x)),
                 logger_error
                   (''Error fetching transcript for call '' @ py_str e call_id @ '': '' @
                    str_exn e x) s1)
              else (Inl x, s1))
         | Inr transcript_data \<Rightarrow>
             (Inr transcript_data,
              print (''Transcript fetched for call '' @ py_str e call_id) s1))"

definition transcript_file_name :: "env \<Rightarrow> string \<Rightarrow> string" where
  "transcript_file_name e name =
     ''conversations'' @ ''/'' @ name @ ''_'' @ strftime_stamp (now e) @ ''.json''"

text \<open>
  \<open>save_conversations\<close>. \<open>os.makedirs\<close> stands before the \<open>try\<close> block, so its
  exception leaves the function; an exception of the write is printed and dropped. A file
  counts as written when \<open>open\<close> and \<open>json.dump\<close> have both succeeded.
\<close>

definition save_conversations ::
  "env \<Rightarrow> pyval \<Rightarrow> string \<Rightarrow> state \<Rightarrow> (exn + unit) \<times> state" where
  "save_conversations e transcript name s =
     (case makedirs e ''conversations'' of
        Some x \<Rightarrow> (Inl x, s)
      | None \<Rightarrow>
          (let s0 = s\<lparr>directories := insert ''conversations'' (directories s)\<rparr>;
               path = transcript_file_name e name
           in case file_write e path transcript of
                None \<Rightarrow>
                  (Inr (),
                   print (''saved conversation to '' @ path)
                     (s0\<lparr>files := (files s0)(path \<mapsto> transcript)\<rparr>))
              | Some x \<Rightarrow>
                  (Inr (), print (''Failed to save the conversation:  '' @ str_exn e x) s0)))"

section \<open>HTTP endpoints\<close>

record response =
  status_code :: nat
  body :: pyval

text \<open>
  What FastAPI sends for the outcome of an endpoint function: the returned value with
  status 200, the status and detail of a raised \<open>HTTPException\<close>, and 500 for any other
  exception.
\<close>

definition respond :: "exn + pyval \<Rightarrow> response" where
  "respond r =
     (case r of
        Inr v \<Rightarrow> \<lparr>status_code = 200, body = v\<rparr>
      | Inl (HTTPException code detail) \<Rightarrow>
          \<lparr>status_code = code, body = PDict [(''detail'', PStr detail)]\<rparr>
      | Inl _ \<Rightarrow> \<lparr>status_code = 500, body = PStr ''Internal Server Error''\<rparr>)"

subsection \<open>POST /call-status\<close>

text \<open>The body of the \<open>try\<close> block of \<open>handle_call_status\<close>, up to the \<open>return\<close>.\<close>

definition call_status_body ::
  "env \<Rightarrow> string \<Rightarrow> string \<Rightarrow> state \<Rightarrow> (exn + unit) \<times> state" where
  "call_status_body e CallSid CallStatus s =
     (let s0 = print (''Received call status update - CallSid: '' @ CallSid @
                      '', Status: '' @ CallStatus) s
      in if CallStatus = ''completed'' then
           (let s1 = print (''Call '' @ CallSid @ '' completed successfully'') s0;
                s2 = print (''voice call call id... '' @ py_str e (voice_call_id s1)) s1
            in case fetch_transcript e (voice_call_id s2) s2 of
                 (Inl x, s3) \<Rightarrow> (Inl x, s3)
               | (Inr call_transcript, s3) \<Rightarrow>
                   (let s4 = print (''call transcript: '' @ py_str e call_transcript) s3;
                        s5 = print (''transcript_customer_name  '' @
                                    transcription_customer_name s4) s4
                    in case py_get call_transcript ''results'' of
                         Inl x \<Rightarrow> (Inl x, s5)
                       | Inr results \<Rightarrow>
                           (if truthy results then
                              save_conversations e call_transcript
                                (transcription_customer_name s5) s5
                            else (Inr (), print ''No conversation found and saved...'' s5))))
         else if CallStatus = ''busy'' then
           (Inr (), print (''Call '' @ CallSid @ '' was busy'') s0)
         else if CallStatus = ''no-answer'' then
           (Inr (), print (''Call '' @ CallSid @ '' had no answer'') s0)
         else if CallStatus = ''failed'' then
           (Inr (), logger_error (''Call '' @ CallSid @ '' failed'') s0)
         else if CallStatus = ''answered'' then
           (Inr (), print (''Call '' @ CallSid @ '' was answered'') s0)
         else (Inr (), s0))"

text \<open>
  \<open>handle_call_status\<close>: the \<open>except Exception\<close> clause turns every exception of the
  body into a returned dict, so the function itself never raises.
\<close>

definition handle_call_status :: "env \<Rightarrow> string \<Rightarrow> string \<Rightarrow> state \<Rightarrow> pyval \<times> state" where
  "handle_call_status e CallSid CallStatus s =
     (case call_status_body e CallSid CallStatus s of
        (Inr _, s1) \<Rightarrow>
          (PDict [(''message'', PStr ''Status received''), (''status'', PStr ''ok'')], s1)
      | (Inl x, s1) \<Rightarrow>
          (PDict [(''message'', PStr ''Error processing status''),
                  (''error'', PStr (str_exn e x))],
           logger_error (''Error processing call status: '' @ str_exn e x) s1))"

text \<open>
  The route itself. \<open>CallSid\<close> and \<open>CallStatus\<close> are declared \<open>Form(...)\<close>, that is
  required: FastAPI answers a request whose form lacks one of them, or carries it empty,
  with status 422 and does not call the function. The five optional fields are not read
  by the function. Of the 422 body only the locations of the missing fields are modelled.
\<close>

definition missing_fields :: "(string \<rightharpoonup> string) \<Rightarrow> string list" where
  "missing_fields form =
     filter (\<lambda>k. form k = None \<or> form k = Some []) [''CallSid'', ''CallStatus'']"

definition validation_response :: "string list \<Rightarrow> response" where
  "validation_response missing =
     \<lparr>status_code = 422,
      body = PDict [(''detail'',
        PList (map (\<lambda>k. PDict [(''loc'', PList [PStr ''body'', PStr k])]) missing))]\<rparr>"

definition call_status_endpoint ::
  "env \<Rightarrow> (string \<rightharpoonup> string) \<Rightarrow> state \<Rightarrow> response \<times> state" where
  "call_status_endpoint e form s =
     (if missing_fields form \<noteq> [] then (validation_response (missing_fields form), s)
      else
        (case handle_call_status e (the (form ''CallSid'')) (the (form ''CallStatus'')) s of
           (v, s1) \<Rightarrow> (respond (Inr v), s1)))"

subsection \<open>GET /fetch-transcript/{call_id}\<close>

text \<open>
  The constructor of \<open>TranscriptResponse\<close>: \<open>call_id\<close> and \<open>message\<close> are strings
  already; \<open>transcript\<close> is declared \<open>str\<close>, so a decoded list, dict or null is rejected.
\<close>

definition TranscriptResponse_init :: "env \<Rightarrow> string \<Rightarrow> pyval \<Rightarrow> string \<Rightarrow> exn + pyval" where
  "TranscriptResponse_init e call_id transcript message =
     (let accepted =
            (case transcript of
               PStr t \<Rightarrow> Some t
             | PInt i \<Rightarrow> (if coerce_numbers e then Some (py_str e transcript) else None)
             | PBool b \<Rightarrow> (if coerce_numbers e then Some (py_str e transcript) else None)
             | _ \<Rightarrow> None)
      in case accepted of
           None \<Rightarrow> Inl (ValidationError [''transcript''])
         | Some t \<Rightarrow>
             Inr (PDict [(''call_id'', PStr call_id), (''transcript'', PStr t),
                         (''message'', PStr message)]))"

definition get_call_transcript_body ::
  "env \<Rightarrow> string \<Rightarrow> state \<Rightarrow> (exn + pyval) \<times> state" where
  "get_call_transcript_body e call_id s =
     (case fetch_transcript e (PStr call_id) s of
        (Inl x, s1) \<Rightarrow> (Inl x, s1)
      | (Inr transcript, s1) \<Rightarrow>
          (TranscriptResponse_init e call_id transcript
             (''Transcript fetched successfully for call '' @ call_id), s1))"

text \<open>\<open>get_call_transcript\<close>: an \<open>HTTPException\<close> is raised again as it is, any
  other exception becomes an \<open>HTTPException\<close> with status 500.\<close>

definition get_call_transcript ::
  "env \<Rightarrow> string \<Rightarrow> state \<Rightarrow> (exn + pyval) \<times> state" where
  "get_call_transcript e call_id s =
     (let s0 = print (''Fetching transcript for call_id: '' @ call_id) s
      in case get_call_transcript_body e call_id s0 of
           (Inr v, s1) \<Rightarrow> (Inr v, s1)
         | (Inl x, s1) \<Rightarrow>
             (if is_HTTPException x then (Inl x, s1)
              else
                (Inl (HTTPException 500 (''Failed to fetch transcript: '' @ str_exn e x)),
                 logger_error (''Unexpected error fetching transcript: '' @ str_exn e x) s1)))"

definition fetch_transcript_endpoint :: "env \<Rightarrow> string \<Rightarrow> state \<Rightarrow> response \<times> state" where
  "fetch_transcript_endpoint e call_id s =
     (case get_call_transcript e call_id s of (r, s1) \<Rightarrow> (respond r, s1))"

section \<open>Sequences of calls and example data\<close>

text \<open>
  Several \<open>create_call\<close>s one after another, each on the state its predecessor left;
  a call that raises leaves the globals as they were.
\<close>

fun create_calls :: "env \<Rightarrow> ContactResponse list \<Rightarrow> state \<Rightarrow> state" where
  "create_calls e [] s = s"
| "create_calls e (c # cs) s = create_calls e cs (snd (create_call e c s))"

text \<open>The property names \<open>create_response_object\<close> reads from the CRM record.\<close>

definition normalizer_keys :: "string list" where
  "normalizer_keys =
     [''customer_name'', ''phone_number'', ''loan_type'', ''outstanding_amount'',
      ''missed_emi_count'', ''emi_amount'', ''due_date'', ''dpd_days'', ''bank_name'',
      ''proposed_months'', ''amount'', ''months'', ''call_status'',
      ''number_of_call_attempts'', ''call_lifted_time'', ''secure_payment_link'',
      ''preferred_callback_time'']"

text \<open>Concrete records, environments and states on which the theorems are exercised.\<close>

definition example_record :: "string \<rightharpoonup> propval" where
  "example_record =
     [''customer_name'' \<mapsto> Str ''Asha Rao'', ''outstanding_amount'' \<mapsto> Str ''45000'',
      ''loan_type'' \<mapsto> Str ''personal loan'']"


definition null_bank_record :: "string \<rightharpoonup> propval" where
  "null_bank_record = [''customer_name'' \<mapsto> Str ''Asha Rao'', ''bank_name'' \<mapsto> Null]"

definition example_now :: datetime where
  "example_now =
     \<lparr>year = 2025, month = 6, day = 22, hour = 9, minute = 5, second = 7,
      microsecond = 123456\<rparr>"

definition example_str_exn :: "exn \<Rightarrow> string" where
  "example_str_exn x =
     (case x of
        HTTPException code detail \<Rightarrow> detail
      | RequestException m \<Rightarrow> m
      | AttributeError m \<Rightarrow> ''object has no attribute '' @ m
      | ValidationError fs \<Rightarrow> ''validation error''
      | ValueError m \<Rightarrow> m
      | KeyError m \<Rightarrow> m
      | OtherException m \<Rightarrow> m)"

definition example_transcript :: pyval where
  "example_transcript =
     PDict [(''results'', PList [PDict [(''role'', PStr ''agent''), (''text'', PStr ''Hello'')]])]"

definition empty_transcript :: pyval where
  "empty_transcript = PDict [(''results'', PList [])]"

definition example_voice_get :: "string \<Rightarrow> exn + pyval" where
  "example_voice_get url =
     (if url = ''https://api.ultravox.ai/api/calls/call-1/messages'' then Inr example_transcript
      else if url = ''https://api.ultravox.ai/api/calls/call-2/messages'' then Inr empty_transcript
      else Inl (RequestException ''404 Client Error: Not Found''))"

definition example_do_search :: "string \<Rightarrow> exn + (string \<rightharpoonup> propval) list" where
  "example_do_search name = (if name = ''Asha Rao'' then Inr [example_record] else Inr [])"

definition example_voice_post :: "string \<Rightarrow> exn + pyval" where
  "example_voice_post prompt =
     Inr (PDict [(''callId'', PStr ''call-1''), (''joinUrl'', PStr ''wss://voice.example/join'')])"

definition no_failure :: "string \<Rightarrow> exn option" where
  "no_failure path = None"

definition no_write_failure :: "string \<Rightarrow> pyval \<Rightarrow> exn option" where
  "no_write_failure path v = None"

definition file_in_the_way :: "string \<Rightarrow> exn option" where
  "file_in_the_way path = Some (OtherException ''[Errno 17] File exists'')"

definition example_repr :: "pyval \<Rightarrow> string" where
  "example_repr v = ''<value>''"

definition example_env :: env where
  "example_env =
     \<lparr>DESTINATION_PHONE_NUMBER = ''+918919025218'', now = example_now,
      do_search = example_do_search, voice_post = example_voice_post,
      voice_get = example_voice_get, makedirs = no_failure, file_write = no_write_failure,
      str_exn = example_str_exn, repr_val = example_repr, coerce_numbers = False\<rparr>"

definition blocked_env :: env where
  "blocked_env = example_env\<lparr>makedirs := file_in_the_way\<rparr>"

definition example_contact :: ContactResponse where
  "example_contact =
     \<lparr>bank_name = ''Example Bank'', customer_name = ''Asha Rao'', loan_type = ''personal loan'',
      outstanding_amount = ''45000'', missed_emi_count = ''2'', emi_amount = ''5000'',
      due_date = ''2025-06-01'', proposed_months = ''6'', amount = ''45000'', months = ''6'',
      phone_number = ''+918919025218'', call_status = ''pending'',
      number_of_call_attempts = ''0'', call_lifted_time = ''none'',
      secure_payment_link = ''https://example.com/payment'',
      preferred_callback_time = ''evening'', main_message = ''Hello Asha Rao.'',
      dpd_days = ''21'', date = ''2025-06-22'', agent_name = ''Yaswanth''\<rparr>"

definition brace_contact :: ContactResponse where
  "brace_contact = example_contact\<lparr>customer_name := ''{customer_name}''\<rparr>"


definition complete_form :: "string \<rightharpoonup> string" where
  "complete_form = [''CallSid'' \<mapsto> ''CA123'', ''CallStatus'' \<mapsto> ''busy'']"

definition form_without_status :: "string \<rightharpoonup> string" where
  "form_without_status = [''CallSid'' \<mapsto> ''CA123'']"

declare dec.simps [simp del]

text \<open>What a piece of the template turns into under the keyword arguments.\<close>

fun piece_value :: "(string \<rightharpoonup> string) \<Rightarrow> piece \<Rightarrow> string" where
  "piece_value kw (Lit s) = s"
| "piece_value kw (Field n) = the (kw n)"

definition prompt_field_names :: "string list" where
  "prompt_field_names =
     [''agent_name'', ''bank_name'', ''customer_name'', ''main_message'',
      ''preferred_callback_time'']"




section \<open>Properties of the Customer Record Normalizer\<close>




lemma dict_get_Null: "(dict_get d k dflt = Null) = (d k = Some Null)"
  by (simp add: dict_get_def split: option.splits)


lemma ContactResponse_init_Inr_iff:
  "(\<exists>c. ContactResponse_init r = Inr c) = (\<forall>p \<in> set (field_values r). snd p \<noteq> Null)"
  by (auto simp: ContactResponse_init_def Let_def filter_empty_conv split_beta)


lemma create_response_object_Inr_iff:
  "(\<exists>r. create_response_object e cd = Inr r) =
     list_all (\<lambda>k. cd k \<noteq> Some Null) normalizer_keys"
proof (cases "dict_get cd ''customer_name'' []")
  case Null
  have "cd ''customer_name'' = Some Null"
    using Null by (simp add: dict_get_Null)
  moreover have "create_response_object e cd = Inl (AttributeError ''strip'')"
    by (simp add: create_response_object_def Let_def Null)
  ultimately show ?thesis
    by (simp add: normalizer_keys_def)
next
  case (Str name)
  then have n: "cd ''customer_name'' \<noteq> Some Null"
    by (auto simp: dict_get_def)
  show ?thesis
    using n
    by (simp add: create_response_object_def Let_def Str ContactResponse_init_Inr_iff
        field_values_def normalizer_keys_def dict_get_Null) blast
qed








text \<open>
  Claim C7, as stated: the Normalizer raises no error on any property mapping, null
  values included. It fails: a null bank name reaches the constructor of the pydantic
  model, whose fields are all declared \<open>str\<close>, and is rejected.
\<close>

theorem null_bank_name_is_rejected:
  "create_response_object example_env null_bank_record = Inl (ValidationError [''bank_name''])"
  by (simp add: create_response_object_def Let_def dict_get_def null_bank_record_def
      ContactResponse_init_def field_values_def)

text \<open>
  Claim C7, amended: the Normalizer returns a fully populated record, every field a
  string, exactly for the property mappings in which no property it reads is null; keys
  may be absent and values may be empty strings.
\<close>

theorem normalizer_total_without_null:
  "list_all (\<lambda>k. cd k \<noteq> Some Null) normalizer_keys \<longleftrightarrow>
     (\<exists>r. create_response_object e cd = Inr r)"
  using create_response_object_Inr_iff [of e cd] by simp

theorem normalizer_total_without_null_witness:
  "list_all (\<lambda>k. example_record k \<noteq> Some Null) normalizer_keys \<and>
   (\<exists>r. create_response_object example_env example_record = Inr r)"
proof -
  have h: "list_all (\<lambda>k. example_record k \<noteq> Some Null) normalizer_keys"
    by (simp add: normalizer_keys_def example_record_def)
  show ?thesis
    using h normalizer_total_without_null [of example_record example_env] by simp
qed

section \<open>Properties of the Call Script Builder\<close>

lemma scan_plain:
  "plain s \<Longrightarrow> format_scan kw out None (s @ rest) = format_scan kw (out @ s) None rest"
  by (induction s arbitrary: out) (auto simp: plain_def)

lemma scan_name:
  "plain n \<Longrightarrow>
   format_scan kw out (Some f) (n @ CHR ''}'' # rest) =
   format_scan kw out (Some (f @ n)) (CHR ''}'' # rest)"
proof (induction n arbitrary: f)
  case Nil
  show ?case by simp
next
  case (Cons a n)
  have a: "a \<noteq> CHR ''}''" and pn: "plain n"
    using Cons.prems by (auto simp: plain_def)
  have "format_scan kw out (Some f) ((a # n) @ CHR ''}'' # rest) =
        format_scan kw out (Some (f @ [a])) (n @ CHR ''}'' # rest)"
    using a by simp
  also have "\<dots> = format_scan kw out (Some ((f @ [a]) @ n)) (CHR ''}'' # rest)"
    by (rule Cons.IH [OF pn])
  also have "(f @ [a]) @ n = f @ a # n"
    by simp
  finally show ?case .
qed

lemma simple_name_plain: "simple_name n \<Longrightarrow> plain n \<and> n \<noteq> [] \<and> hd n \<noteq> CHR ''{''"
  by (cases n) (auto simp: simple_name_def plain_def list_all_iff)

lemma scan_field:
  assumes "simple_name n"
  shows "format_scan kw out None (CHR ''{'' # n @ CHR ''}'' # rest) =
     (case kw n of
        None \<Rightarrow> Inl (KeyError n)
      | Some v \<Rightarrow> format_scan kw (out @ v) None rest)"
proof -
  from simple_name_plain [OF assms] obtain d ds where n: "n = d # ds" "d \<noteq> CHR ''{''" "plain n"
    by (cases n) auto
  have "format_scan kw out None (CHR ''{'' # n @ CHR ''}'' # rest) =
        format_scan kw out (Some []) (n @ CHR ''}'' # rest)"
    using n(1,2) by simp
  also have "\<dots> = format_scan kw out (Some n) (CHR ''}'' # rest)"
    using scan_name [OF n(3), of kw out "[]" rest] by simp
  also have "\<dots> = (case kw n of
        None \<Rightarrow> Inl (KeyError n)
      | Some v \<Rightarrow> format_scan kw (out @ v) None rest)"
    using assms by simp
  finally show ?thesis .
qed

lemma template_of_Nil: "template_of [] = []"
  by (simp add: template_of_def)

lemma template_of_Cons: "template_of (p # ps) = piece_text p @ template_of ps"
  by (simp add: template_of_def)

lemma scan_pieces:
  "list_all wf_piece ps \<Longrightarrow> format_scan kw out None (template_of ps) = render kw out ps"
proof (induction ps arbitrary: out)
  case Nil
  then show ?case by (simp add: template_of_Nil)
next
  case (Cons p ps)
  then have wf: "wf_piece p" and rest: "list_all wf_piece ps"
    by simp_all
  note IH = Cons.IH [OF rest]
  show ?case
  proof (cases p)
    case (Lit s)
    then have "plain s"
      using wf by simp
    then show ?thesis
      by (simp add: Lit template_of_Cons scan_plain IH)
  next
    case (Field n)
    then have sn: "simple_name n"
      using wf by simp
    have "format_scan kw out None (template_of (p # ps)) =
          format_scan kw out None (CHR ''{'' # n @ CHR ''}'' # template_of ps)"
      by (simp add: Field template_of_Cons del: format_scan.simps)
    also have "\<dots> = (case kw n of
          None \<Rightarrow> Inl (KeyError n)
        | Some v \<Rightarrow> format_scan kw (out @ v) None (template_of ps))"
      by (rule scan_field [OF sn])
    also have "\<dots> = render kw out (p # ps)"
      by (simp add: Field IH split: option.splits)
    finally show ?thesis .
  qed
qed

lemma render_defined:
  "list_all (\<lambda>p. case p of Lit s \<Rightarrow> True | Field n \<Rightarrow> kw n \<noteq> None) ps \<Longrightarrow>
   render kw out ps = Inr (out @ concat (map (piece_value kw) ps))"
  by (induction ps arbitrary: out) (auto split: piece.splits)

lemma sublist_piece:
  assumes "p \<in> set ps"
  shows "sublist (piece_value kw p) (concat (map (piece_value kw) ps))"
proof -
  obtain a b where ps: "ps = a @ p # b"
    using assms by (meson split_list)
  have "concat (map (piece_value kw) ps) =
      concat (map (piece_value kw) a) @ piece_value kw p @ concat (map (piece_value kw) b)"
    unfolding ps by simp
  then show ?thesis
    by (simp only: sublist_appendI)
qed

lemma plain_Nil: "plain []"
  by (simp add: plain_def)

lemma plain_append: "plain (a @ b) = (plain a \<and> plain b)"
  by (auto simp: plain_def)

lemma plain_concat:
  "list_all (\<lambda>p. plain (piece_value kw p)) ps \<Longrightarrow> plain (concat (map (piece_value kw) ps))"
  by (induction ps) (simp_all add: plain_Nil plain_append)

lemma sublist_set: "sublist p t \<Longrightarrow> set p \<subseteq> set t"
  by (auto simp: sublist_def)

lemma placeholder_has_brace: "q \<in> set placeholders \<Longrightarrow> CHR ''{'' \<in> set q"
  unfolding placeholders_def by auto

lemma plain_no_placeholder:
  assumes p: "plain t"
  shows "\<not> has_placeholder t"
proof
  assume "has_placeholder t"
  then obtain q where q: "q \<in> set placeholders" "sublist q t"
    unfolding has_placeholder_def list_ex_iff by blast
  from q(1) have "CHR ''{'' \<in> set q"
    by (rule placeholder_has_brace)
  with sublist_set [OF q(2)] p show False
    unfolding plain_def by blast
qed

lemma prompt_template: "SYSTEM_PROMPT = template_of prompt_pieces"
  by code_simp

lemma prompt_pieces_wf: "list_all wf_piece prompt_pieces"
  by code_simp

lemma prompt_fields_known:
  "list_all (\<lambda>p. case p of Lit s \<Rightarrow> True | Field n \<Rightarrow> n \<in> set prompt_field_names)
     prompt_pieces"
  by code_simp

lemma prompt_kwargs_defined: "n \<in> set prompt_field_names \<Longrightarrow> prompt_kwargs c n \<noteq> None"
  by (auto simp: prompt_field_names_def prompt_kwargs_def)

lemma prompt_fields_defined:
  "list_all (\<lambda>p. case p of Lit s \<Rightarrow> True | Field n \<Rightarrow> prompt_kwargs c n \<noteq> None)
     prompt_pieces"
  using prompt_fields_known
  by (rule list.pred_mono_strong) (auto split: piece.splits dest: prompt_kwargs_defined)

lemma formatted_prompt_eq:
  "formatted_prompt c = Inr (concat (map (piece_value (prompt_kwargs c)) prompt_pieces))"
proof -
  have "formatted_prompt c = format_scan (prompt_kwargs c) [] None (template_of prompt_pieces)"
    by (simp only: formatted_prompt_def py_format_def prompt_template)
  also have "\<dots> = render (prompt_kwargs c) [] prompt_pieces"
    by (rule scan_pieces [OF prompt_pieces_wf])
  also have "\<dots> = Inr ([] @ concat (map (piece_value (prompt_kwargs c)) prompt_pieces))"
    by (rule render_defined [OF prompt_fields_defined])
  finally show ?thesis
    by simp
qed

lemma prompt_has_fields:
  "Field ''agent_name'' \<in> set prompt_pieces"
  "Field ''bank_name'' \<in> set prompt_pieces"
  "Field ''customer_name'' \<in> set prompt_pieces"
  "Field ''main_message'' \<in> set prompt_pieces"
  "Field ''preferred_callback_time'' \<in> set prompt_pieces"
  by code_simp+

lemma prompt_values_plain:
  assumes "plain (agent_name c)" "plain (bank_name c)" "plain (customer_name c)"
    "plain (main_message c)" "plain (preferred_callback_time c)"
  shows "list_all (\<lambda>p. plain (piece_value (prompt_kwargs c) p)) prompt_pieces"
  unfolding list_all_iff
proof
  fix p
  assume p: "p \<in> set prompt_pieces"
  show "plain (piece_value (prompt_kwargs c) p)"
  proof (cases p)
    case (Lit s)
    have "wf_piece p"
      using prompt_pieces_wf p by (simp add: list_all_iff)
    then show ?thesis
      by (simp add: Lit)
  next
    case (Field n)
    have "case p of Lit s \<Rightarrow> True | Field n \<Rightarrow> n \<in> set prompt_field_names"
      using prompt_fields_known p unfolding list_all_iff by (rule bspec)
    then have "n \<in> set prompt_field_names"
      by (simp add: Field)
    then show ?thesis
      using assms by (auto simp: Field prompt_field_names_def prompt_kwargs_def)
  qed
qed

lemma prompt_value_in_output:
  assumes "Field n \<in> set prompt_pieces" and "prompt_kwargs c n = Some v"
  shows "sublist v (concat (map (piece_value (prompt_kwargs c)) prompt_pieces))"
  using sublist_piece [OF assms(1), of "prompt_kwargs c"] assms(2) by simp

text \<open>
  Claim C6, as stated: the rendered script never contains placeholder syntax. It fails:
  \<open>str.format\<close> does not read the inserted text again, so a customer name that is
  itself written like a placeholder stands in the output as it is.
\<close>

theorem placeholder_in_customer_name_survives:
  "\<not> isl (formatted_prompt brace_contact) \<and>
   has_placeholder (projr (formatted_prompt brace_contact))"
proof -
  have kw: "prompt_kwargs brace_contact ''customer_name'' = Some ''{customer_name}''"
    by (simp add: prompt_kwargs_def brace_contact_def)
  have "sublist ''{customer_name}'' (projr (formatted_prompt brace_contact))"
    using prompt_value_in_output [OF prompt_has_fields(3) kw]
    by (simp only: formatted_prompt_eq sum.sel)
  then have "has_placeholder (projr (formatted_prompt brace_contact))"
    by (simp add: has_placeholder_def placeholders_def)
  then show ?thesis
    by (simp add: formatted_prompt_eq)
qed

text \<open>
  Claim C6, amended: for every CallContext, formatting the template succeeds and the
  output is the template with each of its placeholders replaced by the field of that name
  (agent name, bank name, customer name, main message, preferred callback time), so it
  contains the literal customer name and main message; and when none of these five
  fields contains a brace, the output contains no brace and hence no placeholder.
\<close>

theorem script_builder_output:
  "SYSTEM_PROMPT = template_of prompt_pieces \<and>
   (\<exists>out. formatted_prompt c = Inr out \<and>
      out = concat (map (piece_value (prompt_kwargs c)) prompt_pieces) \<and>
      sublist (customer_name c) out \<and> sublist (main_message c) out \<and>
      sublist (agent_name c) out \<and> sublist (bank_name c) out \<and>
      sublist (preferred_callback_time c) out \<and>
      (plain (agent_name c) \<and> plain (bank_name c) \<and> plain (customer_name c) \<and>
       plain (main_message c) \<and> plain (preferred_callback_time c) \<longrightarrow>
       plain out \<and> \<not> has_placeholder out))"
proof -
  let ?out = "concat (map (piece_value (prompt_kwargs c)) prompt_pieces)"
  have s1: "sublist (agent_name c) ?out"
    by (rule prompt_value_in_output [OF prompt_has_fields(1)]) (simp add: prompt_kwargs_def)
  have s2: "sublist (bank_name c) ?out"
    by (rule prompt_value_in_output [OF prompt_has_fields(2)]) (simp add: prompt_kwargs_def)
  have s3: "sublist (customer_name c) ?out"
    by (rule prompt_value_in_output [OF prompt_has_fields(3)]) (simp add: prompt_kwargs_def)
  have s4: "sublist (main_message c) ?out"
    by (rule prompt_value_in_output [OF prompt_has_fields(4)]) (simp add: prompt_kwargs_def)
  have s5: "sublist (preferred_callback_time c) ?out"
    by (rule prompt_value_in_output [OF prompt_has_fields(5)]) (simp add: prompt_kwargs_def)
  have pl: "plain ?out \<and> \<not> has_placeholder ?out"
    if "plain (agent_name c)" "plain (bank_name c)" "plain (customer_name c)"
      "plain (main_message c)" "plain (preferred_callback_time c)"
  proof -
    have "plain ?out"
      by (rule plain_concat [OF prompt_values_plain [OF that]])
    then show ?thesis
      using plain_no_placeholder by blast
  qed
  show ?thesis
    using prompt_template formatted_prompt_eq [of c] s1 s2 s3 s4 s5 pl by blast
qed

theorem script_builder_output_witness:
  "plain (agent_name example_contact) \<and> plain (bank_name example_contact) \<and>
   plain (customer_name example_contact) \<and> plain (main_message example_contact) \<and>
   plain (preferred_callback_time example_contact) \<and>
   \<not> isl (formatted_prompt example_contact) \<and>
   plain (projr (formatted_prompt example_contact)) \<and>
   \<not> has_placeholder (projr (formatted_prompt example_contact)) \<and>
   sublist ''Asha Rao'' (projr (formatted_prompt example_contact))"
proof -
  have h: "plain (agent_name example_contact)" "plain (bank_name example_contact)"
    "plain (customer_name example_contact)" "plain (main_message example_contact)"
    "plain (preferred_callback_time example_contact)"
    by (simp_all add: example_contact_def plain_def)
  have n: "customer_name example_contact = ''Asha Rao''"
    by (simp add: example_contact_def)
  obtain out where out: "formatted_prompt example_contact = Inr out"
    "sublist (customer_name example_contact) out" "plain out \<and> \<not> has_placeholder out"
    using script_builder_output [of example_contact] h by blast
  show ?thesis
    using h out n by simp
qed

section \<open>Properties of the services and the webhook\<close>


lemma fetch_transcript_state:
  "requested (snd (fetch_transcript e cid s)) = requested s @ [transcript_url e cid]"
  "files (snd (fetch_transcript e cid s)) = files s"
  "directories (snd (fetch_transcript e cid s)) = directories s"
  "voice_call_id (snd (fetch_transcript e cid s)) = voice_call_id s"
  "transcription_customer_name (snd (fetch_transcript e cid s)) = transcription_customer_name s"
  by (simp_all add: fetch_transcript_def Let_def print_def logger_error_def split: sum.splits)

lemma save_conversations_result:
  "fst (save_conversations e t name s) =
     (case makedirs e ''conversations'' of Some x \<Rightarrow> Inl x | None \<Rightarrow> Inr ())"
  by (simp add: save_conversations_def Let_def split: option.splits)

lemma save_conversations_state:
  "requested (snd (save_conversations e t name s)) = requested s"
  "voice_call_id (snd (save_conversations e t name s)) = voice_call_id s"
  "transcription_customer_name (snd (save_conversations e t name s)) =
     transcription_customer_name s"
  "files (snd (save_conversations e t name s)) =
     (if makedirs e ''conversations'' = None \<and>
         file_write e (transcript_file_name e name) t = None
      then (files s)(transcript_file_name e name \<mapsto> t) else files s)"
  "directories (snd (save_conversations e t name s)) =
     (if makedirs e ''conversations'' = None
      then insert ''conversations'' (directories s) else directories s)"
  by (simp_all add: save_conversations_def Let_def print_def split: option.splits)

text \<open>What the body of the handler does on a completed call, without the printed lines.\<close>

lemma completed_body:
  "fst (call_status_body e sid ''completed'' s) =
     (case fst (fetch_transcript e (voice_call_id s) s) of
        Inl x \<Rightarrow> Inl x
      | Inr t \<Rightarrow>
          (case py_get t ''results'' of
             Inl x \<Rightarrow> Inl x
           | Inr rs \<Rightarrow>
               if truthy rs
               then (case makedirs e ''conversations'' of Some x \<Rightarrow> Inl x | None \<Rightarrow> Inr ())
               else Inr ()))"
  "requested (snd (call_status_body e sid ''completed'' s)) =
     requested s @ [transcript_url e (voice_call_id s)]"
  "voice_call_id (snd (call_status_body e sid ''completed'' s)) = voice_call_id s"
  "transcription_customer_name (snd (call_status_body e sid ''completed'' s)) =
     transcription_customer_name s"
  "files (snd (call_status_body e sid ''completed'' s)) =
     (case voice_get e (transcript_url e (voice_call_id s)) of
        Inl x \<Rightarrow> files s
      | Inr t \<Rightarrow>
          (case py_get t ''results'' of
             Inl x \<Rightarrow> files s
           | Inr rs \<Rightarrow>
               if truthy rs \<and> makedirs e ''conversations'' = None \<and>
                  file_write e (transcript_file_name e (transcription_customer_name s)) t = None
               then (files s)(transcript_file_name e (transcription_customer_name s) \<mapsto> t)
               else files s))"
  "directories (snd (call_status_body e sid ''completed'' s)) =
     (case voice_get e (transcript_url e (voice_call_id s)) of
        Inl x \<Rightarrow> directories s
      | Inr t \<Rightarrow>
          (case py_get t ''results'' of
             Inl x \<Rightarrow> directories s
           | Inr rs \<Rightarrow>
               if truthy rs \<and> makedirs e ''conversations'' = None
               then insert ''conversations'' (directories s)
               else directories s))"
  by (simp_all add: call_status_body_def Let_def print_def logger_error_def
      fetch_transcript_def save_conversations_def
      split: sum.splits option.splits)

lemma other_status_body:
  assumes "st \<noteq> ''completed''"
  shows "fst (call_status_body e sid st s) = Inr ()"
    and "requested (snd (call_status_body e sid st s)) = requested s"
    and "files (snd (call_status_body e sid st s)) = files s"
    and "directories (snd (call_status_body e sid st s)) = directories s"
    and "voice_call_id (snd (call_status_body e sid st s)) = voice_call_id s"
    and "transcription_customer_name (snd (call_status_body e sid st s)) =
           transcription_customer_name s"
  using assms by (simp_all add: call_status_body_def Let_def print_def logger_error_def)

lemma handle_call_status_fst:
  "fst (handle_call_status e sid st s) =
     (case fst (call_status_body e sid st s) of
        Inr u \<Rightarrow> PDict [(''message'', PStr ''Status received''), (''status'', PStr ''ok'')]
      | Inl x \<Rightarrow>
          PDict [(''message'', PStr ''Error processing status''),
                 (''error'', PStr (str_exn e x))])"
  by (simp add: handle_call_status_def split: prod.splits sum.splits)

lemma handle_call_status_state:
  "requested (snd (handle_call_status e sid st s)) =
     requested (snd (call_status_body e sid st s))"
  "files (snd (handle_call_status e sid st s)) = files (snd (call_status_body e sid st s))"
  "directories (snd (handle_call_status e sid st s)) =
     directories (snd (call_status_body e sid st s))"
  "voice_call_id (snd (handle_call_status e sid st s)) =
     voice_call_id (snd (call_status_body e sid st s))"
  "transcription_customer_name (snd (handle_call_status e sid st s)) =
     transcription_customer_name (snd (call_status_body e sid st s))"
  by (simp_all add: handle_call_status_def logger_error_def split: prod.splits sum.splits)



lemma example_lookups:
  "voice_get example_env (transcript_url example_env (PStr ''call-1'')) = Inr example_transcript"
  "voice_get example_env (transcript_url example_env (PStr ''call-2'')) = Inr empty_transcript"
  "makedirs example_env ''conversations'' = None"
  "file_write example_env path v = None"
  by (simp_all add: example_env_def example_voice_get_def transcript_url_def
      VOICE_API_URL_def py_str_def no_failure_def no_write_failure_def)






text \<open>
  Claim C2, as stated: every request to the route is answered with status 200. It
  fails: \<open>CallSid\<close> and \<open>CallStatus\<close> are required form fields, and a request without
  \<open>CallStatus\<close> is answered 422 by the validation of the request.
\<close>

theorem request_without_status_is_422:
  "status_code (fst (call_status_endpoint example_env form_without_status initial_state)) = 422"
  by (simp add: call_status_endpoint_def missing_fields_def form_without_status_def
      validation_response_def)

text \<open>
  Claim C2, amended: every request that carries both required form fields is answered
  with status 200 and a body \<open>{message, status}\<close> or \<open>{message, error}\<close>; every
  exception raised while the handler works is caught and its text reported in the body.
  A request that lacks a required field is answered 422 before the handler runs, and
  nothing else happens.
\<close>

theorem call_status_always_acknowledged:
  "(form ''CallSid'' = Some sid \<and> sid \<noteq> [] \<and> form ''CallStatus'' = Some st \<and> st \<noteq> [] \<longrightarrow>
      status_code (fst (call_status_endpoint e form s)) = 200 \<and>
      (case fst (call_status_body e sid st s) of
         Inr u \<Rightarrow>
           body (fst (call_status_endpoint e form s)) =
             PDict [(''message'', PStr ''Status received''), (''status'', PStr ''ok'')]
       | Inl x \<Rightarrow>
           body (fst (call_status_endpoint e form s)) =
             PDict [(''message'', PStr ''Error processing status''),
                    (''error'', PStr (str_exn e x))])) \<and>
   (missing_fields form \<noteq> [] \<longrightarrow>
      status_code (fst (call_status_endpoint e form s)) = 422 \<and>
      snd (call_status_endpoint e form s) = s)"
proof (intro conjI impI)
  assume a: "form ''CallSid'' = Some sid \<and> sid \<noteq> [] \<and> form ''CallStatus'' = Some st \<and> st \<noteq> []"
  then have m: "missing_fields form = []"
    by (simp add: missing_fields_def)
  have r: "fst (call_status_endpoint e form s) =
      \<lparr>status_code = 200, body = fst (handle_call_status e sid st s)\<rparr>"
    using a by (simp add: call_status_endpoint_def m respond_def split: prod.splits)
  show "status_code (fst (call_status_endpoint e form s)) = 200"
    by (simp add: r)
  show "case fst (call_status_body e sid st s) of
         Inr u \<Rightarrow>
           body (fst (call_status_endpoint e form s)) =
             PDict [(''message'', PStr ''Status received''), (''status'', PStr ''ok'')]
       | Inl x \<Rightarrow>
           body (fst (call_status_endpoint e form s)) =
             PDict [(''message'', PStr ''Error processing status''),
                    (''error'', PStr (str_exn e x))]"
    by (simp add: r handle_call_status_fst split: sum.splits)
next
  assume a: "missing_fields form \<noteq> []"
  show "status_code (fst (call_status_endpoint e form s)) = 422"
    using a by (simp add: call_status_endpoint_def validation_response_def)
  show "snd (call_status_endpoint e form s) = s"
    using a by (simp add: call_status_endpoint_def)
qed

theorem call_status_always_acknowledged_witness:
  "complete_form ''CallSid'' = Some ''CA123'' \<and> complete_form ''CallStatus'' = Some ''busy'' \<and>
   status_code (fst (call_status_endpoint example_env complete_form initial_state)) = 200 \<and>
   body (fst (call_status_endpoint example_env complete_form initial_state)) =
     PDict [(''message'', PStr ''Status received''), (''status'', PStr ''ok'')] \<and>
   missing_fields form_without_status \<noteq> [] \<and>
   snd (call_status_endpoint example_env form_without_status initial_state) = initial_state"
proof -
  have f: "complete_form ''CallSid'' = Some ''CA123''" "complete_form ''CallStatus'' = Some ''busy''"
    by (simp_all add: complete_form_def)
  have b: "fst (call_status_body example_env ''CA123'' ''busy'' initial_state) = Inr ()"
    by (rule other_status_body) simp
  have m: "missing_fields form_without_status \<noteq> []"
    by (simp add: missing_fields_def form_without_status_def)
  show ?thesis
    using
      call_status_always_acknowledged [of complete_form "''CA123''" "''busy''" example_env
        initial_state]
      call_status_always_acknowledged [of form_without_status "''CA123''" "''busy''" example_env
        initial_state]
      f b m
    by simp
qed

text \<open>Every outcome of the CRM lookup.\<close>

lemma fetch_contact_outcomes:
  "fst (fetch_contact e name s) =
     (case do_search e name of
        Inl x \<Rightarrow> Inl (HTTPException 500 (''Failed to fetch HubSpot data: '' @ str_exn e x))
      | Inr [] \<Rightarrow>
          Inl (HTTPException 500
                 (''Failed to fetch HubSpot data: '' @
                  str_exn e (HTTPException 404 (''No contact found for name: '' @ name))))
      | Inr (first # others) \<Rightarrow> Inr first)"
  by (simp add: fetch_contact_def fetch_contact_body_def Let_def
      split: sum.splits list.splits)

text \<open>
  Claim C3: a search without a match is to fail with status 404. The code raises the
  404 inside the \<open>try\<close> block whose \<open>except Exception\<close> clause catches it and raises a
  500 instead: for a name the CRM does not know, the lookup fails with status 500.
\<close>

theorem unknown_name_is_reported_as_500:
  "fst (fetch_contact example_env ''Nobody'' initial_state) =
     Inl (HTTPException 500
            ''Failed to fetch HubSpot data: No contact found for name: Nobody'')"
  by (simp add: fetch_contact_outcomes example_env_def example_do_search_def
      example_str_exn_def)

lemma create_call_success:
  assumes "fst (create_call e c s) = Inr resp"
  shows "py_get resp ''callId'' = Inr (voice_call_id (snd (create_call e c s)))"
    and "transcription_customer_name (snd (create_call e c s)) = customer_name c"
  using assms
  by (auto simp: create_call_def Let_def print_def logger_error_def
      split: sum.splits if_splits)

lemma create_call_failure:
  assumes "isl (fst (create_call e c s))"
  shows "voice_call_id (snd (create_call e c s)) = voice_call_id s"
    and "transcription_customer_name (snd (create_call e c s)) =
           transcription_customer_name s"
  using assms
  by (auto simp: create_call_def Let_def print_def logger_error_def
      split: sum.splits if_splits)

lemma create_calls_append:
  "create_calls e (cs @ [c]) s = snd (create_call e c (create_calls e cs s))"
  by (induction cs arbitrary: s) simp_all

lemma completed_reads_the_pair:
  "requested (snd (handle_call_status e sid ''completed'' s)) =
     requested s @ [transcript_url e (voice_call_id s)]"
  "files (snd (handle_call_status e sid ''completed'' s)) = files s \<or>
   (\<exists>t. files (snd (handle_call_status e sid ''completed'' s)) =
      (files s)(transcript_file_name e (transcription_customer_name s) \<mapsto> t))"
  by (auto simp: handle_call_status_state completed_body split: sum.splits)

text \<open>
  Claim C4: the current session is one pair of globals. A \<open>create_call\<close> that returns
  writes the \<open>callId\<close> of the response and the customer name into it, one that raises
  leaves it as it was, so after any sequence of calls the pair is that of the last call
  that returned; the handler of a completed call requests the transcript of exactly the
  stored id and saves under exactly the stored name.
\<close>

theorem current_session_pair:
  "(fst (create_call e c s) = Inr resp \<longrightarrow>
      py_get resp ''callId'' = Inr (voice_call_id (snd (create_call e c s))) \<and>
      transcription_customer_name (snd (create_call e c s)) = customer_name c) \<and>
   (isl (fst (create_call e c s)) \<longrightarrow>
      voice_call_id (snd (create_call e c s)) = voice_call_id s \<and>
      transcription_customer_name (snd (create_call e c s)) =
        transcription_customer_name s) \<and>
   (fst (create_call e c (create_calls e cs s)) = Inr resp \<longrightarrow>
      py_get resp ''callId'' = Inr (voice_call_id (create_calls e (cs @ [c]) s)) \<and>
      transcription_customer_name (create_calls e (cs @ [c]) s) = customer_name c) \<and>
   requested (snd (handle_call_status e sid ''completed'' s)) =
     requested s @ [transcript_url e (voice_call_id s)] \<and>
   (files (snd (handle_call_status e sid ''completed'' s)) = files s \<or>
    (\<exists>t. files (snd (handle_call_status e sid ''completed'' s)) =
       (files s)(transcript_file_name e (transcription_customer_name s) \<mapsto> t)))"
  using create_call_success [of e c s resp] create_call_failure [of e c s]
    create_call_success [of e c "create_calls e cs s" resp]
    completed_reads_the_pair [of e sid s]
  by (simp only: create_calls_append) blast

lemma example_create_call:
  "fst (create_call example_env c s) =
     Inr (PDict [(''callId'', PStr ''call-1''), (''joinUrl'', PStr ''wss://voice.example/join'')])"
  by (simp add: create_call_def formatted_prompt_eq Let_def example_env_def
      example_voice_post_def py_get_def)

theorem current_session_pair_witness:
  "fst (create_call example_env example_contact (create_calls example_env [brace_contact] initial_state)) =
     Inr (PDict [(''callId'', PStr ''call-1''), (''joinUrl'', PStr ''wss://voice.example/join'')]) \<and>
   voice_call_id (create_calls example_env ([brace_contact] @ [example_contact]) initial_state) =
     PStr ''call-1'' \<and>
   transcription_customer_name
     (create_calls example_env ([brace_contact] @ [example_contact]) initial_state) = ''Asha Rao''"
  using current_session_pair [where e = example_env and c = example_contact
      and s = initial_state and cs = "[brace_contact]" and sid = "''CA123''"
      and resp = "PDict [(''callId'', PStr ''call-1''),
                         (''joinUrl'', PStr ''wss://voice.example/join'')]"]
    example_create_call [of example_contact "create_calls example_env [brace_contact] initial_state"]
  by (simp add: py_get_def example_contact_def del: create_calls.simps)

text \<open>The path of a saved transcript, and that the clock enters it down to the second.\<close>

lemma transcript_file_name_shape:
  "transcript_file_name e name =
     ''conversations/'' @ name @ ''_'' @ strftime_stamp (now e) @ ''.json''"
  by (simp add: transcript_file_name_def)

lemma transcript_file_name_seconds:
  "transcript_file_name (e\<lparr>now := (now e)\<lparr>microsecond := m\<rparr>\<rparr>) name =
     transcript_file_name e name"
  by (simp add: transcript_file_name_def strftime_stamp_def)

lemma write_failure_is_dropped:
  assumes "makedirs e ''conversations'' = None"
    and "file_write e (transcript_file_name e name) t = Some x"
  shows "fst (save_conversations e t name s) = Inr ()"
    and "files (snd (save_conversations e t name s)) = files s"
  using assms by (simp_all add: save_conversations_result save_conversations_state)

text \<open>
  Claim C8: no failure of the save is to leave \<open>save_conversations\<close>. The write is
  inside the \<open>try\<close> block, but \<open>os.makedirs\<close> stands before it: when the directory
  cannot be made (here a file of that name is in the way), the exception leaves the
  function.
\<close>

theorem makedirs_failure_leaves_the_function:
  "fst (save_conversations blocked_env example_transcript ''Asha Rao'' initial_state) =
     Inl (OtherException ''[Errno 17] File exists'')"
  by (simp add: save_conversations_result blocked_env_def example_env_def
      file_in_the_way_def)

text \<open>Every outcome of the transcript route.\<close>

lemma get_call_transcript_outcomes:
  "fst (get_call_transcript e cid s) =
     (case voice_get e (transcript_url e (PStr cid)) of
        Inl x \<Rightarrow>
          if is_HTTPException x then Inl x
          else Inl (HTTPException 500 (''Failed to fetch transcript: '' @ str_exn e x))
      | Inr t \<Rightarrow>
          (case TranscriptResponse_init e cid t
                  (''Transcript fetched successfully for call '' @ cid) of
             Inr v \<Rightarrow> Inr v
           | Inl x \<Rightarrow>
               Inl (HTTPException 500 (''Failed to fetch transcript: '' @ str_exn e x))))"
proof -
  have i: "\<And>t m. \<not> isl (TranscriptResponse_init e cid t m) \<or>
      TranscriptResponse_init e cid t m = Inl (ValidationError [''transcript''])"
    by (simp add: TranscriptResponse_init_def Let_def split: option.splits)
  show ?thesis
  proof (cases "voice_get e (transcript_url e (PStr cid))")
    case (Inl x)
    then show ?thesis
      by (simp add: get_call_transcript_def get_call_transcript_body_def Let_def
          fetch_transcript_def is_HTTPException_def is_RequestException_def
          split: exn.splits)
  next
    case (Inr t)
    then show ?thesis
      using i [of t "''Transcript fetched successfully for call '' @ cid"]
      by (auto simp: get_call_transcript_def get_call_transcript_body_def Let_def
          fetch_transcript_def is_HTTPException_def split: sum.splits)
  qed
qed

lemma transcript_route_never_crashes:
  "fst (fetch_transcript_endpoint e cid s) \<noteq>
     \<lparr>status_code = 500, body = PStr ''Internal Server Error''\<rparr>"
  by (simp add: fetch_transcript_endpoint_def case_prod_unfold respond_def
      get_call_transcript_outcomes is_HTTPException_def
      split: sum.splits exn.splits)

lemma failed_lookup_is_500:
  assumes "voice_get e (transcript_url e (PStr cid)) = Inl x" and "\<not> is_HTTPException x"
  shows "fst (fetch_transcript_endpoint e cid s) =
     \<lparr>status_code = 500,
      body = PDict [(''detail'', PStr (''Failed to fetch transcript: '' @ str_exn e x))]\<rparr>"
  using assms
  by (simp add: fetch_transcript_endpoint_def case_prod_unfold respond_def
      get_call_transcript_outcomes)

text \<open>
  Claim C9: a lookup that succeeds is to give a 200 response with the transcript. The
  provider answers with a JSON object (the handler of the webhook reads its
  \<open>results\<close>), and \<open>TranscriptResponse\<close> declares \<open>transcript: str\<close>: the model rejects
  the object, and the route answers 500 although the lookup succeeded.
\<close>

theorem fetched_object_is_answered_500:
  "fst (fetch_transcript_endpoint example_env ''call-1'' initial_state) =
     \<lparr>status_code = 500,
      body = PDict [(''detail'', PStr ''Failed to fetch transcript: validation error'')]\<rparr>"
  by (simp add: fetch_transcript_endpoint_def case_prod_unfold respond_def
      get_call_transcript_outcomes example_lookups TranscriptResponse_init_def
      example_transcript_def)
    (simp add: example_env_def example_str_exn_def)

text \<open>
  Claim C10: two completed events that differ only in \<open>CallSid\<close> are answered alike,
  request the same transcript (that of the stored session id) and leave the same files,
  directories and globals; \<open>CallSid\<close> reaches the printed lines only.
\<close>

theorem call_sid_has_no_influence:
  "fst (handle_call_status e sid1 ''completed'' s) =
     fst (handle_call_status e sid2 ''completed'' s) \<and>
   requested (snd (handle_call_status e sid1 ''completed'' s)) =
     requested (snd (handle_call_status e sid2 ''completed'' s)) \<and>
   files (snd (handle_call_status e sid1 ''completed'' s)) =
     files (snd (handle_call_status e sid2 ''completed'' s)) \<and>
   directories (snd (handle_call_status e sid1 ''completed'' s)) =
     directories (snd (handle_call_status e sid2 ''completed'' s)) \<and>
   voice_call_id (snd (handle_call_status e sid1 ''completed'' s)) =
     voice_call_id (snd (handle_call_status e sid2 ''completed'' s)) \<and>
   transcription_customer_name (snd (handle_call_status e sid1 ''completed'' s)) =
     transcription_customer_name (snd (handle_call_status e sid2 ''completed'' s)) \<and>
   requested (snd (handle_call_status e sid1 ''completed'' s)) =
     requested s @ [transcript_url e (voice_call_id s)] \<and>
   (files (snd (handle_call_status e sid1 ''completed'' s)) = files s \<or>
    (\<exists>t. files (snd (handle_call_status e sid1 ''completed'' s)) =
       (files s)(transcript_file_name e (transcription_customer_name s) \<mapsto> t)))"
  using completed_reads_the_pair(2) [of e sid1 s]
  by (simp add: handle_call_status_fst handle_call_status_state completed_body)

end
